theory Spec2Isabelle
  imports Complex_Main
begin


section \<open>Seam carving: the data model\<close>

text \<open>
  The development follows \<^verbatim>\<open>seam_carving.py\<close>. Exceptions of the Python code are values of
  type \<open>error\<close>; a function that can raise returns \<open>error + 'a\<close> with \<open>Inl\<close> the exception.

  Element values are numbers of a linearly ordered type \<open>'a\<close>; nothing about their arithmetic
  is assumed unless a statement says so. NaN is not a value of the model. The storage type of
  an array is the tag \<open>dtype\<close>; a conversion between storage types that keeps the number
  (a byte or a seam label stored as a double) leaves the element as it is.
\<close>

datatype error = AssertionError | IndexError | ValueError

datatype dtype = Bool | UInt8 | Int64 | Float64

text \<open>A cost is a number or the \<open>float('inf')\<close> used as padding.\<close>

datatype 'a ext = Fin 'a | PInf

instantiation ext :: (linorder) linorder
begin

fun less_eq_ext :: "'a ext \<Rightarrow> 'a ext \<Rightarrow> bool" where
  "less_eq_ext x PInf = True"
| "less_eq_ext PInf (Fin b) = False"
| "less_eq_ext (Fin a) (Fin b) = (a \<le> b)"

definition less_ext :: "'a ext \<Rightarrow> 'a ext \<Rightarrow> bool" where
  "less_ext x y = (x \<le> y \<and> \<not> y \<le> x)"

instance
proof
  fix x y z :: "'a ext"
  show "(x < y) = (x \<le> y \<and> \<not> y \<le> x)"
    by (simp add: less_ext_def)
  show "x \<le> x"
    by (cases x) simp_all
  show "x \<le> y \<Longrightarrow> y \<le> z \<Longrightarrow> x \<le> z"
    by (cases x; cases y; cases z) simp_all
  show "x \<le> y \<Longrightarrow> y \<le> x \<Longrightarrow> x = y"
    by (cases x; cases y) simp_all
  show "x \<le> y \<or> y \<le> x"
    by (cases x; cases y) auto
qed

end

text \<open>\<open>inf + x\<close> is \<open>inf\<close>.\<close>

fun add_ext :: "'a::plus ext \<Rightarrow> 'a \<Rightarrow> 'a ext" where
  "add_ext (Fin a) e = Fin (a + e)"
| "add_ext PInf e = PInf"

text \<open>\<open>np.argmin\<close>: the first index at which the minimum is attained.\<close>

definition argmin :: "'a::linorder list \<Rightarrow> nat" where
  "argmin xs = length (takeWhile (\<lambda>x. x \<noteq> min_list xs) xs)"

text \<open>
  An integer index into an axis of length \<open>n\<close>: an index from \<open>-n\<close> to \<open>-1\<close> counts
  from the end, and an index outside \<open>-n..n-1\<close> raises.
\<close>

definition norm_index :: "nat \<Rightarrow> int \<Rightarrow> error + nat" where
  "norm_index n i =
     (if - int n \<le> i \<and> i < 0 then Inr (nat (i + int n))
      else if 0 \<le> i \<and> i < int n then Inr (nat i)
      else Inl IndexError)"

definition py_get :: "'a list \<Rightarrow> int \<Rightarrow> error + 'a" where
  "py_get xs i = (case norm_index (length xs) i of Inl err \<Rightarrow> Inl err | Inr j \<Rightarrow> Inr (xs ! j))"

section \<open>Cost accumulation\<close>

text \<open>
  Energy, cost and direction grids are lists of rows. \<open>compute_cost\<close> does not read its
  \<open>image\<close> argument, which is left out.

  One pass of the loop over rows: the three slices of the padded previous row are the rows
  of \<open>stack\<close>; column \<open>j\<close> of \<open>stack\<close> is \<open>stack_col\<close>.
\<close>

definition stack_col :: "'a list \<Rightarrow> nat \<Rightarrow> 'a list" where
  "stack_col padded j = [padded ! j, padded ! (j + 1), padded ! (j + 2)]"

definition cost_step :: "'a::{linorder,plus} ext list \<Rightarrow> 'a list \<Rightarrow> 'a ext list \<times> int list" where
  "cost_step prev erow =
     (let padded = PInf # prev @ [PInf];
          cols = map (stack_col padded) [0..<length prev]
      in (map2 (\<lambda>c e. add_ext (min_list c) e) cols erow,
          map (\<lambda>c. int (argmin c) - 1) cols))"

fun cost_loop :: "'a::{linorder,plus} ext list \<Rightarrow> 'a list list \<Rightarrow> 'a ext list list \<times> int list list" where
  "cost_loop prev [] = ([], [])"
| "cost_loop prev (e # es) =
     (let (c, p) = cost_step prev e;
          (cs, ps) = cost_loop c es
      in (c # cs, p # ps))"

definition paths_ok :: "int list list \<Rightarrow> bool" where
  "paths_ok paths = list_all (list_all (\<lambda>d. d = 1 \<or> d = 0 \<or> d = - 1)) paths"

definition compute_cost ::
  "'a::{linorder,plus} list list \<Rightarrow> int \<Rightarrow> error + ('a ext list list \<times> int list list)" where
  "compute_cost energy axis =
     (let energy = (if axis = 0 then transpose energy else energy)
      in case energy of
           [] \<Rightarrow> Inl IndexError
         | e0 # es \<Rightarrow>
             (let cost0 = map Fin e0;
                  (cs, ps) = cost_loop cost0 es;
                  cost = cost0 # cs;
                  paths = replicate (length e0) 0 # ps;
                  cost = (if axis = 0 then transpose cost else cost);
                  paths = (if axis = 0 then transpose paths else paths)
              in if paths_ok paths then Inr (cost, paths) else Inl AssertionError))"

text \<open>
  The forward variant works on the luminance grid \<open>img\<close> that \<open>color.rgb2gray\<close> returns
  (an external function). \<open>fwd_col\<close> is column \<open>j\<close> of \<open>stack\<close> in row \<open>i\<close>, from the
  image rows \<open>i - 1\<close> (\<open>up\<close>) and \<open>i\<close> (\<open>cur\<close>) and the previous cost row. With a single
  column the branch \<open>j == 0\<close> reads column 1 and raises.
\<close>

definition fwd_col ::
  "'a::{linorder,plus,minus,abs} list \<Rightarrow> 'a list \<Rightarrow> 'a ext list \<Rightarrow> nat \<Rightarrow> 'a ext list" where
  "fwd_col up cur prev j =
     (let W = length prev
      in if 0 < j \<and> j + 1 < W then
           [add_ext (add_ext (prev ! (j - 1)) \<bar>cur ! (j + 1) - cur ! (j - 1)\<bar>) \<bar>up ! j - cur ! (j - 1)\<bar>,
            add_ext (prev ! j) \<bar>cur ! (j + 1) - cur ! (j - 1)\<bar>,
            add_ext (add_ext (prev ! (j + 1)) \<bar>cur ! (j + 1) - cur ! (j - 1)\<bar>) \<bar>up ! j - cur ! (j + 1)\<bar>]
         else if j = 0 then
           [PInf, prev ! j, add_ext (prev ! (j + 1)) \<bar>up ! j - cur ! (j + 1)\<bar>]
         else
           [add_ext (prev ! (j - 1)) \<bar>up ! j - cur ! (j - 1)\<bar>, prev ! j, PInf])"

definition fwd_step ::
  "'a::{linorder,plus,minus,abs} list \<Rightarrow> 'a list \<Rightarrow> 'a ext list \<Rightarrow> 'a list
     \<Rightarrow> error + ('a ext list \<times> int list)" where
  "fwd_step up cur prev erow =
     (if length prev = 1 then Inl IndexError
      else (let cols = map (fwd_col up cur prev) [0..<length prev]
            in Inr (map2 (\<lambda>c e. add_ext (min_list c) e) cols erow,
                    map (\<lambda>c. int (argmin c) - 1) cols)))"

fun fwd_loop ::
  "'a::{linorder,plus,minus,abs} list \<Rightarrow> 'a ext list \<Rightarrow> 'a list list \<Rightarrow> 'a list list
     \<Rightarrow> error + ('a ext list list \<times> int list list)" where
  "fwd_loop up prev [] es = Inr ([], [])"
| "fwd_loop up prev (cur # rows) [] = Inl IndexError"
| "fwd_loop up prev (cur # rows) (e # es) =
     (case fwd_step up cur prev e of
        Inl err \<Rightarrow> Inl err
      | Inr (c, p) \<Rightarrow>
          (case fwd_loop cur c rows es of
             Inl err \<Rightarrow> Inl err
           | Inr (cs, ps) \<Rightarrow> Inr (c # cs, p # ps)))"

definition fwd_row0 :: "'a::{linorder,plus,minus,abs} list \<Rightarrow> 'a list \<Rightarrow> 'a ext list" where
  "fwd_row0 im0 e0 =
     map (\<lambda>j. if 0 < j \<and> j + 1 < length im0
              then Fin (e0 ! j + \<bar>im0 ! (j + 1) - im0 ! (j - 1)\<bar>)
              else Fin (e0 ! j))
         [0..<length im0]"

definition compute_forward_cost ::
  "'a::{linorder,plus,minus,abs} list list \<Rightarrow> 'a list list
     \<Rightarrow> error + ('a ext list list \<times> int list list)" where
  "compute_forward_cost img energy =
     (case img of
        [] \<Rightarrow> Inl IndexError
      | im0 # rows \<Rightarrow>
          (case energy of
             [] \<Rightarrow> Inl IndexError
           | e0 # es \<Rightarrow>
               if length e0 \<noteq> length im0 then Inl ValueError
               else (let cost0 = fwd_row0 im0 e0
                     in case fwd_loop im0 cost0 rows es of
                          Inl err \<Rightarrow> Inl err
                        | Inr (cs, ps) \<Rightarrow>
                            (let cost = cost0 # cs;
                                 paths = replicate (length im0) 0 # ps
                             in if paths_ok paths then Inr (cost, paths)
                                else Inl AssertionError))))"

section \<open>Seam tracing\<close>

text \<open>
  \<open>backtrack_loop\<close> takes the rows \<open>H - 1\<close> down to \<open>1\<close> of \<open>paths\<close> and the column
  reached in the first of them; it returns the seam of the rows above and of this one, in
  row order.
\<close>

fun backtrack_loop :: "int list list \<Rightarrow> int \<Rightarrow> error + int list" where
  "backtrack_loop [] s = Inr [s]"
| "backtrack_loop (row # rest) s =
     (case py_get row s of
        Inl err \<Rightarrow> Inl err
      | Inr d \<Rightarrow>
          (case backtrack_loop rest (s + d) of
             Inl err \<Rightarrow> Inl err
           | Inr seam \<Rightarrow> Inr (seam @ [s])))"

definition backtrack_seam :: "int list list \<Rightarrow> int \<Rightarrow> error + int list" where
  "backtrack_seam paths endc =
     (case paths of
        [] \<Rightarrow> Inl IndexError
      | p0 # ps \<Rightarrow>
          (case backtrack_loop (rev ps) endc of
             Inl err \<Rightarrow> Inl err
           | Inr seam \<Rightarrow>
               if list_all (\<lambda>s. 0 \<le> s \<and> s < int (length p0)) seam then Inr seam
               else Inl AssertionError))"


section \<open>Arrays\<close>

text \<open>
  An array whose shape the code inspects or changes (an image, the index map, the label
  grid, a mask) is a shape, a storage type and the elements in row-major order, as NumPy
  holds it. \<open>rows3 H W C\<close> reads a buffer as \<open>H\<close> rows of \<open>W\<close> pixels of \<open>C\<close> channels.
\<close>

record 'a ndarray =
  dtype :: dtype
  shape :: "nat list"
  buf :: "'a list"

definition rows3 :: "nat \<Rightarrow> nat \<Rightarrow> nat \<Rightarrow> 'a list \<Rightarrow> 'a list list list" where
  "rows3 H W C xs = map (\<lambda>i. map (\<lambda>j. take C (drop ((i * W + j) * C) xs)) [0..<W]) [0..<H]"

definition flatten3 :: "'a list list list \<Rightarrow> 'a list" where
  "flatten3 rs = concat (map concat rs)"

definition and_then :: "error + 'a \<Rightarrow> ('a \<Rightarrow> error + 'b) \<Rightarrow> error + 'b" where
  "and_then r f = (case r of Inl err \<Rightarrow> Inl err | Inr x \<Rightarrow> f x)"

text \<open>\<open>np.squeeze\<close> drops every axis of length one; the buffer stays.\<close>

definition squeeze :: "nat list \<Rightarrow> nat list" where
  "squeeze sh = filter (\<lambda>d. d \<noteq> 1) sh"

text \<open>\<open>np.transpose(a, (1, 0, 2))\<close> and the transpose of a matrix.\<close>

definition transpose3 :: "'a ndarray \<Rightarrow> error + 'a ndarray" where
  "transpose3 a =
     (case shape a of
        [H, W, C] \<Rightarrow>
          Inr (a\<lparr>shape := [W, H, C],
                 buf := flatten3 (map (\<lambda>j. map (\<lambda>i. rows3 H W C (buf a) ! i ! j) [0..<H]) [0..<W])\<rparr>)
      | _ \<Rightarrow> Inl ValueError)"

definition transpose2 :: "'a ndarray \<Rightarrow> error + 'a ndarray" where
  "transpose2 a =
     (case shape a of
        [H, W] \<Rightarrow>
          Inr (a\<lparr>shape := [W, H],
                 buf := concat (map (\<lambda>j. map (\<lambda>i. buf a ! (i * W + j)) [0..<H]) [0..<W])\<rparr>)
      | _ \<Rightarrow> Inl ValueError)"

text \<open>
  A slice \<open>a:b\<close> of an axis of length \<open>n\<close>: a negative bound counts from the end, and
  both bounds are clipped to \<open>0..n\<close>. Assigning \<open>vs\<close> to the slice needs as many values as
  the slice has places, or a single value, which is repeated.
\<close>

definition slice_index :: "nat \<Rightarrow> int \<Rightarrow> nat" where
  "slice_index n k = (if k < 0 then nat (max 0 (k + int n)) else min (nat k) n)"

definition py_slice :: "'a list \<Rightarrow> int \<Rightarrow> int \<Rightarrow> 'a list" where
  "py_slice xs a b =
     (let i = slice_index (length xs) a; j = slice_index (length xs) b
      in take (j - i) (drop i xs))"

definition set_slice :: "'a list \<Rightarrow> int \<Rightarrow> int \<Rightarrow> 'a list \<Rightarrow> error + 'a list" where
  "set_slice xs a b vs =
     (let i = slice_index (length xs) a; j = slice_index (length xs) b; m = j - i
      in if length vs = m then Inr (take i xs @ vs @ drop (i + m) xs)
         else if length vs = 1 then Inr (take i xs @ replicate m (hd vs) @ drop (i + m) xs)
         else Inl ValueError)"

section \<open>Removing and duplicating a seam\<close>

text \<open>
  The loop over the rows of \<open>remove_seam\<close>: \<open>out[i, seam[i]:N-1, :] = out[i, seam[i]+1:N, :]\<close>.
  A row is a list of pixels.
\<close>

fun remove_loop :: "'p list list \<Rightarrow> int list \<Rightarrow> error + 'p list list" where
  "remove_loop [] seam = Inr []"
| "remove_loop (r # rs) [] = Inl IndexError"
| "remove_loop (r # rs) (s # seam) =
     (case set_slice r s (int (length r) - 1) (py_slice r (s + 1) (int (length r))) of
        Inl err \<Rightarrow> Inl err
      | Inr r' \<Rightarrow>
          (case remove_loop rs seam of
             Inl err \<Rightarrow> Inl err
           | Inr rs' \<Rightarrow> Inr (r' # rs')))"

definition remove_seam :: "'a ndarray \<Rightarrow> int list \<Rightarrow> error + 'a ndarray" where
  "remove_seam img seam =
     (let sh = (if length (shape img) = 2 then shape img @ [1] else shape img)
      in case sh of
           [H, W, C] \<Rightarrow>
             (case remove_loop (rows3 H W C (buf img)) seam of
                Inl err \<Rightarrow> Inl err
              | Inr rs \<Rightarrow>
                  (let out = \<lparr>dtype = dtype img, shape = squeeze [H, W - 1, C],
                              buf = flatten3 (map (take (W - 1)) rs)\<rparr>
                   in if dtype out = dtype img then Inr out else Inl AssertionError))
         | _ \<Rightarrow> Inl ValueError)"

text \<open>
  \<open>duplicate_seam\<close> copies the image into \<open>np.zeros((H, W + 1, C))\<close>, an array of doubles,
  and shifts: \<open>out[i, seam[i]+1:N, :] = out[i, seam[i]:N-1, :]\<close>.
\<close>

fun duplicate_loop :: "'p list list \<Rightarrow> int list \<Rightarrow> error + 'p list list" where
  "duplicate_loop [] seam = Inr []"
| "duplicate_loop (r # rs) [] = Inl IndexError"
| "duplicate_loop (r # rs) (s # seam) =
     (case set_slice r (s + 1) (int (length r)) (py_slice r s (int (length r) - 1)) of
        Inl err \<Rightarrow> Inl err
      | Inr r' \<Rightarrow>
          (case duplicate_loop rs seam of
             Inl err \<Rightarrow> Inl err
           | Inr rs' \<Rightarrow> Inr (r' # rs')))"

definition duplicate_seam :: "'a::zero ndarray \<Rightarrow> int list \<Rightarrow> error + 'a ndarray" where
  "duplicate_seam img seam =
     (case shape img of
        [H, W, C] \<Rightarrow>
          (case duplicate_loop (map (\<lambda>r. r @ [replicate C 0]) (rows3 H W C (buf img))) seam of
             Inl err \<Rightarrow> Inl err
           | Inr rs \<Rightarrow> Inr \<lparr>dtype = Float64, shape = [H, W + 1, C], buf = flatten3 rs\<rparr>)
      | _ \<Rightarrow> Inl ValueError)"


section \<open>Energy\<close>

text \<open>
  \<open>energy_function\<close> calls two library functions. \<open>color.rgb2gray\<close> is the parameter
  \<open>gray\<close>, the luminance of one pixel. \<open>np.gradient\<close> along an axis of length \<open>n\<close> is
  \<open>diff_at\<close>: central differences inside, one-sided differences at both ends, and an
  error when \<open>n < 2\<close>. The arithmetic is exact.
\<close>

definition diff_at :: "(nat \<Rightarrow> 'a::linordered_field) \<Rightarrow> nat \<Rightarrow> nat \<Rightarrow> 'a" where
  "diff_at f n i =
     (if i = 0 then f 1 - f 0
      else if i = n - 1 then f (n - 1) - f (n - 2)
      else (f (i + 1) - f (i - 1)) / 2)"

definition energy_function ::
  "('a list \<Rightarrow> 'a::linordered_field) \<Rightarrow> 'a ndarray \<Rightarrow> error + 'a list list" where
  "energy_function gray img =
     (case shape img of
        [H, W, C] \<Rightarrow>
          (let g = map (map gray) (rows3 H W C (buf img))
           in if H < 2 then Inl ValueError
              else if W < 2 then Inl ValueError
              else Inr (map (\<lambda>i. map (\<lambda>j. \<bar>diff_at (\<lambda>k. g ! k ! j) H i\<bar> + \<bar>diff_at (\<lambda>k. g ! i ! k) W j\<bar>)
                                     [0..<W])
                            [0..<H]))
      | _ \<Rightarrow> Inl ValueError)"

section \<open>Reduce\<close>

text \<open>
  The strategy arguments \<open>cfunc\<close>, \<open>bfunc\<close>, \<open>rfunc\<close> and \<open>dfunc\<close> are at their
  defaults; \<open>efunc\<close> stays an argument. \<open>seam_of\<close> is the part of the loop body that
  reduce, find_seams and remove_object share: energy, cost, the end column
  \<open>np.argmin(cost[H-1])\<close>, and the seam.
\<close>

definition argmin_row :: "'a::linorder list \<Rightarrow> error + nat" where
  "argmin_row xs = (if xs = [] then Inl ValueError else Inr (argmin xs))"

definition seam_of ::
  "('a ndarray \<Rightarrow> error + 'e::{linorder,plus} list list) \<Rightarrow> nat \<Rightarrow> 'a ndarray \<Rightarrow> error + int list" where
  "seam_of efunc H out =
     and_then (efunc out) (\<lambda>energy.
     and_then (compute_cost energy 1) (\<lambda>(cost, paths).
     and_then (py_get cost (int H - 1)) (\<lambda>row.
     and_then (argmin_row row) (\<lambda>endc.
     backtrack_seam paths (int endc)))))"

fun reduce_loop ::
  "('a ndarray \<Rightarrow> error + 'e::{linorder,plus} list list) \<Rightarrow> nat \<Rightarrow> nat \<Rightarrow> 'a ndarray
     \<Rightarrow> error + 'a ndarray" where
  "reduce_loop efunc H 0 out = Inr out"
| "reduce_loop efunc H (Suc n) out =
     (case seam_of efunc H out of
        Inl err \<Rightarrow> Inl err
      | Inr seam \<Rightarrow>
          (case remove_seam out seam of
             Inl err \<Rightarrow> Inl err
           | Inr out' \<Rightarrow> reduce_loop efunc H n out'))"

definition reduce ::
  "'a ndarray \<Rightarrow> int \<Rightarrow> int \<Rightarrow> ('a ndarray \<Rightarrow> error + 'e::{linorder,plus} list list)
     \<Rightarrow> error + 'a ndarray" where
  "reduce img sz axis efunc =
     and_then (if axis = 0 then transpose3 img else Inr img) (\<lambda>out.
       case shape out of
         H # W # rest \<Rightarrow>
           if \<not> int W > sz then Inl AssertionError
           else if \<not> sz > 0 then Inl AssertionError
           else and_then (reduce_loop efunc H (nat (int W - sz)) out) (\<lambda>out.
                  case shape out of
                    H' # W' # rest' \<Rightarrow>
                      if int W' = sz then (if axis = 0 then transpose3 out else Inr out)
                      else Inl AssertionError
                  | _ \<Rightarrow> Inl IndexError)
       | _ \<Rightarrow> Inl IndexError)"

section \<open>Finding seams and enlarging\<close>

text \<open>
  Indexing with two index arrays, \<open>a[rows, cols]\<close>: the arrays have the same length, or
  one of them has length one and is repeated; each index pair is checked against the
  shape, a negative index counting from the end.
\<close>

definition broadcast2 :: "'a list \<Rightarrow> 'b list \<Rightarrow> error + ('a \<times> 'b) list" where
  "broadcast2 xs ys =
     (if length xs = length ys then Inr (zip xs ys)
      else if length xs = 1 then Inr (map (\<lambda>y. (hd xs, y)) ys)
      else if length ys = 1 then Inr (map (\<lambda>x. (x, hd ys)) xs)
      else Inl IndexError)"

fun positions :: "nat \<Rightarrow> nat \<Rightarrow> (int \<times> int) list \<Rightarrow> error + nat list" where
  "positions H W [] = Inr []"
| "positions H W ((r, c) # ps) =
     (case norm_index H r of
        Inl err \<Rightarrow> Inl err
      | Inr i \<Rightarrow>
          (case norm_index W c of
             Inl err \<Rightarrow> Inl err
           | Inr j \<Rightarrow>
               (case positions H W ps of
                  Inl err \<Rightarrow> Inl err
                | Inr ks \<Rightarrow> Inr ((i * W + j) # ks))))"

definition fancy_positions :: "'a ndarray \<Rightarrow> nat \<Rightarrow> int list \<Rightarrow> error + nat list" where
  "fancy_positions a H cols =
     (case shape a of
        [H', W'] \<Rightarrow> and_then (broadcast2 (map int [0..<H]) cols) (positions H' W')
      | _ \<Rightarrow> Inl IndexError)"

text \<open>
  The bookkeeping of one pass of find_seams: the original columns of the seam are read
  from \<open>indices\<close>, the label grid must hold zero there, and gets the label.
\<close>

definition stamp :: "nat \<Rightarrow> int list \<Rightarrow> int ndarray \<Rightarrow> int ndarray \<Rightarrow> int \<Rightarrow> error + int ndarray" where
  "stamp H seam indices seams label =
     and_then (fancy_positions indices H seam) (\<lambda>ks.
     and_then (fancy_positions seams H (map (\<lambda>k. buf indices ! k) ks)) (\<lambda>ps.
       if \<not> list_all (\<lambda>p. buf seams ! p = 0) ps then Inl AssertionError
       else Inr (seams\<lparr>buf := fold (\<lambda>p b. b[p := label]) ps (buf seams)\<rparr>)))"

fun find_loop ::
  "('a ndarray \<Rightarrow> error + 'e::{linorder,plus} list list) \<Rightarrow> nat \<Rightarrow> nat \<Rightarrow> int \<Rightarrow> 'a ndarray
     \<Rightarrow> int ndarray \<Rightarrow> int ndarray \<Rightarrow> error + int ndarray" where
  "find_loop efunc H 0 label img indices seams = Inr seams"
| "find_loop efunc H (Suc n) label img indices seams =
     (case seam_of efunc H img of
        Inl err \<Rightarrow> Inl err
      | Inr seam \<Rightarrow>
          (case remove_seam img seam of
             Inl err \<Rightarrow> Inl err
           | Inr img' \<Rightarrow>
               (case stamp H seam indices seams label of
                  Inl err \<Rightarrow> Inl err
                | Inr seams' \<Rightarrow>
                    (case remove_seam indices seam of
                       Inl err \<Rightarrow> Inl err
                     | Inr indices' \<Rightarrow> find_loop efunc H n (label + 1) img' indices' seams'))))"

definition find_seams ::
  "'a ndarray \<Rightarrow> int \<Rightarrow> int \<Rightarrow> ('a ndarray \<Rightarrow> error + 'e::{linorder,plus} list list)
     \<Rightarrow> error + int ndarray" where
  "find_seams img k axis efunc =
     and_then (if axis = 0 then transpose3 img else Inr img) (\<lambda>img.
       case shape img of
         [H, W, C] \<Rightarrow>
           if \<not> int W > k then Inl AssertionError
           else and_then
                  (find_loop efunc H (nat k) 1 img
                     \<lparr>dtype = Int64, shape = [H, W], buf = concat (replicate H (map int [0..<W]))\<rparr>
                     \<lparr>dtype = Int64, shape = [H, W], buf = replicate (H * W) 0\<rparr>)
                  (\<lambda>seams. if axis = 0 then transpose2 seams else Inr seams)
       | _ \<Rightarrow> Inl ValueError)"

text \<open>
  \<open>where_cols m v\<close> is the second array of \<open>np.where(m == v)\<close>: the columns of the cells
  equal to \<open>v\<close>, row by row. \<open>relabel\<close> is the statement
  \<open>seams_matrix = dfunc(seams_matrix[:,:,np.newaxis], col)[:,:,0]\<close>.
\<close>

definition where_cols :: "'a ndarray \<Rightarrow> 'a \<Rightarrow> error + int list" where
  "where_cols m v =
     (case shape m of
        [H, W] \<Rightarrow>
          Inr (concat (map (\<lambda>r. map int (filter (\<lambda>j. buf m ! (r * W + j) = v) [0..<W])) [0..<H]))
      | _ \<Rightarrow> Inl ValueError)"

definition relabel :: "'a::zero ndarray \<Rightarrow> int list \<Rightarrow> error + 'a ndarray" where
  "relabel m col =
     (case shape m of
        [H, W] \<Rightarrow>
          and_then (duplicate_seam (m\<lparr>shape := [H, W, 1]\<rparr>) col) (\<lambda>d.
            case shape d of
              [H', W', C'] \<Rightarrow>
                if C' = 0 then Inl IndexError
                else Inr (d\<lparr>shape := [H', W'], buf := map (\<lambda>k. buf d ! (k * C')) [0..<H' * W']\<rparr>)
            | _ \<Rightarrow> Inl IndexError)
      | _ \<Rightarrow> Inl IndexError)"

fun enlarge_loop :: "nat \<Rightarrow> int \<Rightarrow> 'a::zero ndarray \<Rightarrow> int ndarray \<Rightarrow> error + 'a ndarray" where
  "enlarge_loop 0 label out seams_matrix = Inr out"
| "enlarge_loop (Suc n) label out seams_matrix =
     (case where_cols seams_matrix label of
        Inl err \<Rightarrow> Inl err
      | Inr col \<Rightarrow>
          (case duplicate_seam out col of
             Inl err \<Rightarrow> Inl err
           | Inr out' \<Rightarrow>
               (case relabel seams_matrix col of
                  Inl err \<Rightarrow> Inl err
                | Inr seams_matrix' \<Rightarrow> enlarge_loop n (label + 1) out' seams_matrix')))"

definition enlarge ::
  "'a::zero ndarray \<Rightarrow> int \<Rightarrow> int \<Rightarrow> ('a ndarray \<Rightarrow> error + 'e::{linorder,plus} list list)
     \<Rightarrow> error + 'a ndarray" where
  "enlarge img sz axis efunc =
     and_then (if axis = 0 then transpose3 img else Inr img) (\<lambda>out.
       case shape out of
         [H, W, C] \<Rightarrow>
           if \<not> sz > int W then Inl AssertionError
           else if \<not> sz \<le> 2 * int W then Inl AssertionError
           else and_then (find_seams out (sz - int W) 1 efunc) (\<lambda>seams_matrix.
                and_then (enlarge_loop (nat (sz - int W)) 1 out seams_matrix) (\<lambda>out.
                  if axis = 0 then transpose3 out else Inr out))
       | _ \<Rightarrow> Inl ValueError)"

section \<open>Object removal\<close>





section \<open>Predicates used in the proofs\<close>









section \<open>Properties of the cost accumulators\<close>

lemma argmin3: "argmin [a, b, c] = (if a \<le> b \<and> a \<le> c then 0 else if b \<le> c then 1 else 2)"
  by (auto simp: argmin_def min_def)

lemma cost_loop_length:
  "length (fst (cost_loop prev es)) = length es \<and> length (snd (cost_loop prev es)) = length es"
  by (induction es arbitrary: prev) (simp_all add: Let_def split_def)

lemma cost_loop_nth:
  "i < length es \<Longrightarrow>
   fst (cost_loop prev es) ! i = fst (cost_step ((prev # fst (cost_loop prev es)) ! i) (es ! i)) \<and>
   snd (cost_loop prev es) ! i = snd (cost_step ((prev # fst (cost_loop prev es)) ! i) (es ! i))"
proof (induction es arbitrary: prev i)
  case Nil
  then show ?case by simp
next
  case (Cons e es)
  show ?case
  proof (cases i)
    case 0
    then show ?thesis by (simp add: Let_def split_def)
  next
    case (Suc k)
    with Cons.prems have "k < length es" by simp
    from Cons.IH [OF this, of "fst (cost_step prev e)"] Suc show ?thesis
      by (simp add: Let_def split_def)
  qed
qed

lemma compute_cost_rows:
  assumes "compute_cost energy 1 = Inr (cost, paths)"
  shows "length cost = length energy" and "length paths = length energy"
    and "energy \<noteq> []" and "cost ! 0 = map Fin (energy ! 0)"
    and "paths ! 0 = replicate (length (energy ! 0)) 0"
    and "\<And>i. 0 < i \<Longrightarrow> i < length energy \<Longrightarrow>
           cost ! i = fst (cost_step (cost ! (i - 1)) (energy ! i)) \<and>
           paths ! i = snd (cost_step (cost ! (i - 1)) (energy ! i))"
proof -
  from assms obtain e0 es where e: "energy = e0 # es"
    by (cases energy) (auto simp: compute_cost_def)
  from assms e have c: "cost = map Fin e0 # fst (cost_loop (map Fin e0) es)"
    and p: "paths = replicate (length e0) 0 # snd (cost_loop (map Fin e0) es)"
    by (auto simp: compute_cost_def Let_def split: prod.splits if_splits)
  show "length cost = length energy" "length paths = length energy"
    using e c p cost_loop_length [of "map Fin e0" es] by simp_all
  show "energy \<noteq> []" using e by simp
  show "cost ! 0 = map Fin (energy ! 0)" using e c by simp
  show "paths ! 0 = replicate (length (energy ! 0)) 0" using e p by simp
  fix i assume "0 < i" "i < length energy"
  then obtain k where k: "i = Suc k" "k < length es"
    using e by (cases i) auto
  from cost_loop_nth [OF k(2), of "map Fin e0"] show
    "cost ! i = fst (cost_step (cost ! (i - 1)) (energy ! i)) \<and>
     paths ! i = snd (cost_step (cost ! (i - 1)) (energy ! i))"
    using e c p k by simp
qed





lemma fwd_loop_rows:
  "fwd_loop up prev rows es = Inr (cs, ps) \<Longrightarrow>
   length cs = length rows \<and> length ps = length rows \<and>
   (\<forall>i < length rows.
      fwd_step ((up # rows) ! i) (rows ! i) ((prev # cs) ! i) (es ! i) = Inr (cs ! i, ps ! i))"
proof (induction up prev rows es arbitrary: cs ps rule: fwd_loop.induct)
  case (1 up prev es)
  then show ?case by simp
next
  case (2 up prev cur rows)
  then show ?case by simp
next
  case (3 up prev cur rows e es)
  from "3.prems" obtain c p cs' ps' where
    st: "fwd_step up cur prev e = Inr (c, p)" and
    lp: "fwd_loop cur c rows es = Inr (cs', ps')" and
    eq: "cs = c # cs'" "ps = p # ps'"
    by (auto split: sum.splits prod.splits)
  from "3.IH" [OF st refl lp] have ih:
    "length cs' = length rows" "length ps' = length rows"
    "\<forall>i < length rows.
       fwd_step ((cur # rows) ! i) (rows ! i) ((c # cs') ! i) (es ! i) = Inr (cs' ! i, ps' ! i)"
    by simp_all
  show ?case
  proof (intro conjI allI impI)
    show "length cs = length (cur # rows)" "length ps = length (cur # rows)"
      using ih eq by simp_all
    fix i assume "i < length (cur # rows)"
    then show "fwd_step ((up # cur # rows) ! i) ((cur # rows) ! i) ((prev # cs) ! i) ((e # es) ! i)
                 = Inr (cs ! i, ps ! i)"
      using st ih(3) eq by (cases i) simp_all
  qed
qed

lemma compute_forward_cost_rows:
  assumes "compute_forward_cost img energy = Inr (cost, paths)"
  shows "img \<noteq> []" and "energy \<noteq> []" and "length (energy ! 0) = length (img ! 0)"
    and "length cost = length img" and "length paths = length img"
    and "cost ! 0 = fwd_row0 (img ! 0) (energy ! 0)"
    and "\<And>i. 0 < i \<Longrightarrow> i < length img \<Longrightarrow>
           fwd_step (img ! (i - 1)) (img ! i) (cost ! (i - 1)) (energy ! i)
             = Inr (cost ! i, paths ! i)"
proof -
  from assms obtain im0 rows e0 es where ie: "img = im0 # rows" "energy = e0 # es"
    by (cases img; cases energy) (auto simp: compute_forward_cost_def)
  from assms ie obtain cs ps where len: "length e0 = length im0"
    and lp: "fwd_loop im0 (fwd_row0 im0 e0) rows es = Inr (cs, ps)"
    and c: "cost = fwd_row0 im0 e0 # cs" and p: "paths = replicate (length im0) 0 # ps"
    by (auto simp: compute_forward_cost_def Let_def split: sum.splits prod.splits if_splits)
  note r = fwd_loop_rows [OF lp]
  show "img \<noteq> []" "energy \<noteq> []" using ie by simp_all
  show "length (energy ! 0) = length (img ! 0)" using ie len by simp
  show "length cost = length img" "length paths = length img" using r ie c p by simp_all
  show "cost ! 0 = fwd_row0 (img ! 0) (energy ! 0)" using ie c by simp
  fix i assume "0 < i" "i < length img"
  then obtain k where k: "i = Suc k" "k < length rows"
    using ie by (cases i) auto
  with r have "fwd_step ((im0 # rows) ! k) (rows ! k) ((fwd_row0 im0 e0 # cs) ! k) (es ! k)
                 = Inr (cs ! k, ps ! k)" by simp
  then show "fwd_step (img ! (i - 1)) (img ! i) (cost ! (i - 1)) (energy ! i)
               = Inr (cost ! i, paths ! i)"
    using ie c p k by simp
qed








text \<open>
  Claim C4, as amended. Row 0 of the cost grid of \<open>compute_cost\<close> (on the default axis)
  is row 0 of the energy grid. Row 0 of the cost grid of \<open>compute_forward_cost\<close> is the
  energy at the two border columns, and the energy plus
  \<open>|image[0][j+1] - image[0][j-1]|\<close> at every column between them.
\<close>

theorem cost_row0:
  fixes energy :: "'a::{linorder,plus} list list"
    and img fenergy :: "'b::{linorder,plus,minus,abs} list list"
  shows
   "(compute_cost energy 1 = Inr (cost, paths) \<longrightarrow> cost ! 0 = map Fin (energy ! 0)) \<and>
    (compute_forward_cost img fenergy = Inr (fcost, fpaths) \<longrightarrow>
       length (fcost ! 0) = length (img ! 0) \<and>
       (\<forall>j < length (img ! 0).
          fcost ! 0 ! j =
            (if 0 < j \<and> j + 1 < length (img ! 0)
             then Fin (fenergy ! 0 ! j + \<bar>img ! 0 ! (j + 1) - img ! 0 ! (j - 1)\<bar>)
             else Fin (fenergy ! 0 ! j))))"
proof (intro conjI impI)
  assume "compute_cost energy 1 = Inr (cost, paths)"
  then show "cost ! 0 = map Fin (energy ! 0)"
    by (rule compute_cost_rows(4))
next
  assume "compute_forward_cost img fenergy = Inr (fcost, fpaths)"
  then have "fcost ! 0 = fwd_row0 (img ! 0) (fenergy ! 0)"
    by (rule compute_forward_cost_rows(6))
  then show "length (fcost ! 0) = length (img ! 0)"
    and "\<forall>j < length (img ! 0).
          fcost ! 0 ! j =
            (if 0 < j \<and> j + 1 < length (img ! 0)
             then Fin (fenergy ! 0 ! j + \<bar>img ! 0 ! (j + 1) - img ! 0 ! (j - 1)\<bar>)
             else Fin (fenergy ! 0 ! j))"
    by (simp_all add: fwd_row0_def)
qed

theorem cost_row0_witness:
  "compute_cost [[1, 2], [3, 4::real]] 1 = Inr ([[Fin 1, Fin 2], [Fin 4, Fin 5]], [[0, 0], [0, - 1]]) \<and>
   [[Fin 1, Fin 2], [Fin 4, Fin (5::real)]] ! 0 = map Fin ([[1, 2], [3, 4]] ! 0) \<and>
   compute_forward_cost [[0, 0, 1::real]] [[0, 0, 0]] = Inr ([[Fin 0, Fin 1, Fin 0]], [[0, 0, 0]]) \<and>
   [[Fin 0, Fin 1, Fin (0::real)]] ! 0 ! 1 = Fin (0 + \<bar>1 - 0\<bar>)"
proof -
  have a: "compute_cost [[1, 2], [3, 4::real]] 1
             = Inr ([[Fin 1, Fin 2], [Fin 4, Fin 5]], [[0, 0], [0, - 1]])"
    by (simp add: compute_cost_def cost_step_def stack_col_def argmin3 paths_ok_def Let_def
        upt_rec [of 0] upt_rec [of 1] upt_rec [of 2])
  have b: "compute_forward_cost [[0, 0, 1::real]] [[0, 0, 0]] = Inr ([[Fin 0, Fin 1, Fin 0]], [[0, 0, 0]])"
    by (simp add: compute_forward_cost_def fwd_row0_def paths_ok_def Let_def
        upt_rec [of 0] upt_rec [of 1] upt_rec [of 2] upt_rec [of 3])
  from cost_row0 [of "[[1, 2], [3, 4::real]]" "[[Fin 1, Fin 2], [Fin 4, Fin 5]]" "[[0, 0], [0, - 1]]"
      "[[0, 0, 1::real]]" "[[0, 0, 0]]" "[[Fin 0, Fin 1, Fin 0]]" "[[0, 0, 0]]"] a b
  show ?thesis by simp
qed

text \<open>
  Claim C4 as stated fails for the forward variant: on the one-row luminance grid
  \<open>[[0, 0, 1]]\<close> with zero energy the cost of the middle cell is 1.
\<close>

theorem cost_row0_forward_counterexample:
  "compute_forward_cost [[0, 0, 1::real]] [[0, 0, 0]] = Inr ([[Fin 0, Fin 1, Fin 0]], [[0, 0, 0]]) \<and>
   [[Fin 0, Fin 1, Fin (0::real)]] ! 0 \<noteq> map Fin ([[0, 0, 0]] ! 0)"
  by (simp add: compute_forward_cost_def fwd_row0_def paths_ok_def Let_def
      upt_rec [of 0] upt_rec [of 1] upt_rec [of 2] upt_rec [of 3])


section \<open>Guards of reduce and enlarge\<close>

lemma and_then_simps [simp]:
  "and_then (Inl err) f = Inl err"
  "and_then (Inr x) f = f x"
  by (simp_all add: and_then_def)

lemma and_then_Inr:
  "and_then r f = Inr y \<Longrightarrow> \<exists>x. r = Inr x \<and> f x = Inr y"
  by (cases r) simp_all

text \<open>
  Claim C3, as amended. With the default axis, reduce raises AssertionError for every
  target size that is at least the current width, the current width itself included, and
  for every target size that is zero or negative. The energy function is not called: the
  result is the same for every \<open>efunc\<close>.
\<close>

theorem reduce_rejects:
  assumes "shape img = H # W # rest" and "int W \<le> sz \<or> sz \<le> 0"
  shows "reduce img sz 1 efunc = Inl AssertionError"
  using assms by (auto simp: reduce_def)

theorem reduce_rejects_witness:
  "shape \<lparr>dtype = UInt8, shape = [2, 2, 3], buf = [1, 1, 1, 5, 5, 5, 3, 3, 3, 0, 0, 0::rat]\<rparr>
     = 2 # 2 # [3] \<and>
   (int 2 \<le> 2 \<or> (2::int) \<le> 0) \<and>
   reduce \<lparr>dtype = UInt8, shape = [2, 2, 3], buf = [1, 1, 1, 5, 5, 5, 3, 3, 3, 0, 0, 0::rat]\<rparr>
     2 1 (energy_function hd) = Inl AssertionError"
  using reduce_rejects [of "\<lparr>dtype = UInt8, shape = [2, 2, 3],
      buf = [1, 1, 1, 5, 5, 5, 3, 3, 3, 0, 0, 0::rat]\<rparr>" 2 2 "[3]" 2 "energy_function hd"]
  by simp

text \<open>
  Claim C3 as stated fails: reduce to the current width does not return the grid, it
  raises.
\<close>

theorem reduce_same_width_counterexample:
  "reduce \<lparr>dtype = UInt8, shape = [2, 2, 3], buf = [1, 1, 1, 5, 5, 5, 3, 3, 3, 0, 0, 0::rat]\<rparr>
     2 1 (energy_function hd) = Inl AssertionError \<and>
   reduce \<lparr>dtype = UInt8, shape = [2, 2, 3], buf = [1, 1, 1, 5, 5, 5, 3, 3, 3, 0, 0, 0::rat]\<rparr>
     2 1 (energy_function hd)
     \<noteq> Inr \<lparr>dtype = UInt8, shape = [2, 2, 3], buf = [1, 1, 1, 5, 5, 5, 3, 3, 3, 0, 0, 0::rat]\<rparr>"
  by (simp add: reduce_def)

text \<open>
  Claim C2: the code rejects a target of twice the width. The guard of enlarge lets
  \<open>size = 2 * W\<close> pass, and find_seams is then asked for \<open>W\<close> seams, which its own
  guard \<open>W > k\<close> refuses. So every target of at least twice the width raises
  AssertionError, for every energy function.
\<close>

theorem enlarge_twice_width_rejected:
  assumes "shape img = [H, W, C]" and "2 * int W \<le> sz"
  shows "enlarge img sz 1 efunc = Inl AssertionError"
proof (cases "sz = 2 * int W \<and> 0 < W")
  case True
  then have "find_seams img (sz - int W) 1 efunc = Inl AssertionError"
    using assms(1) by (simp add: find_seams_def)
  with True assms(1) show ?thesis
    by (simp add: enlarge_def)
next
  case False
  with assms have "\<not> sz > int W \<or> \<not> sz \<le> 2 * int W" by arith
  with assms(1) show ?thesis
    by (auto simp: enlarge_def)
qed

theorem enlarge_twice_width_rejected_witness:
  "shape \<lparr>dtype = UInt8, shape = [2, 2, 3], buf = [1, 1, 1, 5, 5, 5, 3, 3, 3, 0, 0, 0::rat]\<rparr>
     = [2, 2, 3] \<and>
   2 * int 2 \<le> 4 \<and>
   enlarge \<lparr>dtype = UInt8, shape = [2, 2, 3], buf = [1, 1, 1, 5, 5, 5, 3, 3, 3, 0, 0, 0::rat]\<rparr>
     4 1 (energy_function hd) = Inl AssertionError"
  using enlarge_twice_width_rejected [of "\<lparr>dtype = UInt8, shape = [2, 2, 3],
      buf = [1, 1, 1, 5, 5, 5, 3, 3, 3, 0, 0, 0::rat]\<rparr>" 2 2 3 4 "energy_function hd"]
  by simp

section \<open>Shapes and storage types of the seam mutators\<close>

text \<open>
  Claim C5: the code departs from the claim where the result has an axis of length one.
  \<open>np.squeeze\<close> is called without an axis, so it drops not only a single channel: a
  grid of two columns loses its column axis. Here a \<open>2 x 2 x 3\<close> grid becomes a
  \<open>2 x 3\<close> array, not a \<open>2 x 1 x 3\<close> grid. The values and the storage type are as
  the claim says.
\<close>

theorem remove_seam_two_columns:
  "remove_seam \<lparr>dtype = UInt8, shape = [2, 2, 3], buf = [1, 1, 1, 5, 5, 5, 3, 3, 3, 0, 0, 0::int]\<rparr>
     [0, 1]
   = Inr \<lparr>dtype = UInt8, shape = [2, 3], buf = [5, 5, 5, 3, 3, 3]\<rparr>"
  by code_simp

lemma duplicate_seam_dtype:
  "duplicate_seam img seam = Inr out \<Longrightarrow> dtype out = Float64"
  by (auto simp: duplicate_seam_def split: list.splits sum.splits)

lemma transpose3_dtype:
  "transpose3 a = Inr b \<Longrightarrow> dtype b = dtype a"
  by (auto simp: transpose3_def split: list.splits)

lemma enlarge_loop_dtype:
  "enlarge_loop n label out sm = Inr out' \<Longrightarrow> dtype out = Float64 \<or> 0 < n \<Longrightarrow>
   dtype out' = Float64"
proof (induction n arbitrary: label out sm)
  case 0
  then show ?case by simp
next
  case (Suc n)
  from Suc.prems(1) obtain col out1 sm1 where
    d: "duplicate_seam out col = Inr out1" and
    l: "enlarge_loop n (label + 1) out1 sm1 = Inr out'"
    by (auto split: sum.splits)
  from d have "dtype out1 = Float64" by (rule duplicate_seam_dtype)
  with Suc.IH [OF l] show ?case by simp
qed

text \<open>
  Claim C10. Whatever the storage type of its input, the array that duplicate_seam returns
  is an array of doubles, and so is the array that enlarge returns, on either axis: it
  has gone through duplicate_seam at least once.
\<close>

theorem duplicate_seam_float64:
  "(duplicate_seam img seam = Inr out \<longrightarrow> dtype out = Float64) \<and>
   (enlarge img2 sz axis efunc = Inr out2 \<longrightarrow> dtype out2 = Float64)"
proof (intro conjI impI)
  assume "duplicate_seam img seam = Inr out"
  then show "dtype out = Float64" by (rule duplicate_seam_dtype)
next
  assume e: "enlarge img2 sz axis efunc = Inr out2"
  then obtain a where a: "(if axis = 0 then transpose3 img2 else Inr img2) = Inr a"
    by (auto simp: enlarge_def dest!: and_then_Inr)
  from e a obtain H W C where sh: "shape a = [H, W, C]"
    by (auto simp: enlarge_def split: list.splits)
  from e a sh have g: "sz > int W"
    by (auto simp: enlarge_def split: if_splits)
  from e a sh g obtain sm b where
    l: "enlarge_loop (nat (sz - int W)) 1 a sm = Inr b" and
    t: "(if axis = 0 then transpose3 b else Inr b) = Inr out2"
    by (auto simp: enlarge_def split: if_splits dest!: and_then_Inr)
  from g have "0 < nat (sz - int W)" by simp
  with enlarge_loop_dtype [OF l] have "dtype b = Float64" by simp
  with t show "dtype out2 = Float64"
    by (auto split: if_splits dest: transpose3_dtype)
qed

theorem duplicate_seam_float64_witness:
  "duplicate_seam \<lparr>dtype = UInt8, shape = [2, 2, 3], buf = [1, 1, 1, 5, 5, 5, 3, 3, 3, 0, 0, 0::rat]\<rparr>
     [0, 1]
     = Inr \<lparr>dtype = Float64, shape = [2, 3, 3],
            buf = [1, 1, 1, 1, 1, 1, 5, 5, 5, 3, 3, 3, 0, 0, 0, 0, 0, 0]\<rparr> \<and>
   enlarge \<lparr>dtype = UInt8, shape = [2, 3, 3],
            buf = [1, 1, 1, 5, 5, 5, 2, 2, 2, 3, 3, 3, 0, 0, 0, 9, 9, 9::rat]\<rparr>
     4 1 (energy_function hd)
     = Inr \<lparr>dtype = Float64, shape = [2, 4, 3],
            buf = [1, 1, 1, 5, 5, 5, 5, 5, 5, 2, 2, 2, 3, 3, 3, 3, 3, 3, 0, 0, 0, 9, 9, 9]\<rparr> \<and>
   dtype \<lparr>dtype = Float64, shape = [2, 3, 3],
          buf = [1, 1, 1, 1, 1, 1, 5, 5, 5, 3, 3, 3, 0, 0, 0, 0, 0, 0::rat]\<rparr> = Float64 \<and>
   dtype \<lparr>dtype = Float64, shape = [2, 4, 3],
          buf = [1, 1, 1, 5, 5, 5, 5, 5, 5, 2, 2, 2, 3, 3, 3, 3, 3, 3, 0, 0, 0, 9, 9, 9::rat]\<rparr>
     = Float64"
proof -
  have a: "duplicate_seam
      \<lparr>dtype = UInt8, shape = [2, 2, 3], buf = [1, 1, 1, 5, 5, 5, 3, 3, 3, 0, 0, 0::rat]\<rparr> [0, 1]
     = Inr \<lparr>dtype = Float64, shape = [2, 3, 3],
            buf = [1, 1, 1, 1, 1, 1, 5, 5, 5, 3, 3, 3, 0, 0, 0, 0, 0, 0]\<rparr>"
    by code_simp
  have b: "enlarge \<lparr>dtype = UInt8, shape = [2, 3, 3],
            buf = [1, 1, 1, 5, 5, 5, 2, 2, 2, 3, 3, 3, 0, 0, 0, 9, 9, 9::rat]\<rparr>
     4 1 (energy_function hd)
     = Inr \<lparr>dtype = Float64, shape = [2, 4, 3],
            buf = [1, 1, 1, 5, 5, 5, 5, 5, 5, 2, 2, 2, 3, 3, 3, 3, 3, 3, 0, 0, 0, 9, 9, 9]\<rparr>"
    by code_simp
  from duplicate_seam_float64 [of
      "\<lparr>dtype = UInt8, shape = [2, 2, 3], buf = [1, 1, 1, 5, 5, 5, 3, 3, 3, 0, 0, 0::rat]\<rparr>"
      "[0, 1]"
      "\<lparr>dtype = Float64, shape = [2, 3, 3],
            buf = [1, 1, 1, 1, 1, 1, 5, 5, 5, 3, 3, 3, 0, 0, 0, 0, 0, 0]\<rparr>"
      "\<lparr>dtype = UInt8, shape = [2, 3, 3],
            buf = [1, 1, 1, 5, 5, 5, 2, 2, 2, 3, 3, 3, 0, 0, 0, 9, 9, 9::rat]\<rparr>"
      4 1 "energy_function hd"
      "\<lparr>dtype = Float64, shape = [2, 4, 3],
            buf = [1, 1, 1, 5, 5, 5, 5, 5, 5, 2, 2, 2, 3, 3, 3, 3, 3, 3, 0, 0, 0, 9, 9, 9]\<rparr>"]
    a b
  show ?thesis by simp
qed


section \<open>Directions stay inside the grid\<close>








section \<open>The traced seam\<close>








section \<open>Buffers and rows\<close>















section \<open>The loops of remove_seam and duplicate_seam on a seam inside the grid\<close>











section \<open>remove_seam and duplicate_seam on a seam inside the grid\<close>
















section \<open>One pass of the seam search\<close>




section \<open>Positions in the label grid\<close>












section \<open>The invariant of find_seams\<close>













section \<open>Object removal: the reducing passes\<close>






section \<open>Enlarging from a label grid\<close>









section \<open>Object removal with an empty mask\<close>







end
